theory Spec2Isabelle
  imports Complex_Main
begin

section \<open>GLSL and three.js values\<close>

text \<open>
  The simulation runs in four fragment shaders (\<^verbatim>\<open>shaders.ts\<close>) driven by the class
  \<^verbatim>\<open>GPGPUWater\<close>, and in the pointer handlers and the frame callback of the class
  \<^verbatim>\<open>WaterEngine\<close>. Numbers of the source (GLSL \<^verbatim>\<open>float\<close>, JavaScript \<^verbatim>\<open>number\<close>) are
  read as real numbers: the theory is about the arithmetic the program writes down, not
  about the rounding of its floating-point formats.
\<close>

record vec2 =
  v2x :: real
  v2y :: real

record vec3 =
  v3x :: real
  v3y :: real
  v3z :: real

text \<open>A texel: \<^verbatim>\<open>r\<close> is the height, \<^verbatim>\<open>g\<close> the velocity, \<^verbatim>\<open>b\<close> and \<^verbatim>\<open>a\<close> the normal's x and z.\<close>

record vec4 =
  v4r :: real
  v4g :: real
  v4b :: real
  v4a :: real

definition Vec2 :: "real \<Rightarrow> real \<Rightarrow> vec2" where
  "Vec2 px py = \<lparr>v2x = px, v2y = py\<rparr>"

definition Vec3 :: "real \<Rightarrow> real \<Rightarrow> real \<Rightarrow> vec3" where
  "Vec3 px py pz = \<lparr>v3x = px, v3y = py, v3z = pz\<rparr>"

definition add2 :: "vec2 \<Rightarrow> vec2 \<Rightarrow> vec2" where
  "add2 p q = Vec2 (v2x p + v2x q) (v2y p + v2y q)"

definition sub2 :: "vec2 \<Rightarrow> vec2 \<Rightarrow> vec2" where
  "sub2 p q = Vec2 (v2x p - v2x q) (v2y p - v2y q)"

definition length2 :: "vec2 \<Rightarrow> real" where
  "length2 p = sqrt (v2x p * v2x p + v2y p * v2y p)"

definition length3 :: "vec3 \<Rightarrow> real" where
  "length3 p = sqrt (v3x p * v3x p + v3y p * v3y p + v3z p * v3z p)"

definition cross :: "vec3 \<Rightarrow> vec3 \<Rightarrow> vec3" where
  "cross p q = Vec3 (v3y p * v3z q - v3z p * v3y q)
                    (v3z p * v3x q - v3x p * v3z q)
                    (v3x p * v3y q - v3y p * v3x q)"

definition normalize :: "vec3 \<Rightarrow> vec3" where
  "normalize p = Vec3 (v3x p / length3 p) (v3y p / length3 p) (v3z p / length3 p)"

text \<open>GLSL \<^verbatim>\<open>pow(x, y)\<close>, defined by the language for \<open>0 < x\<close>, and for \<open>x = 0\<close> when \<open>0 < y\<close>.\<close>

definition pow :: "real \<Rightarrow> real \<Rightarrow> real" where
  "pow px py = px powr py"

text \<open>
  A texture is known to a shader through its lookup function \<^verbatim>\<open>texture2D\<close> only, so a
  \<^verbatim>\<open>sampler2D\<close> is the function from texture coordinates to texels. A render target
  receives the value the fragment shader computes at each fragment's coordinate \<^verbatim>\<open>v_uv\<close>.
  Reading a target back is that same function: the store of 128 by 128 texels, its
  filtering and its clamp-to-edge addressing are not part of the model. What is proved of
  a pass is proved for any input texture.
\<close>

type_synonym sampler2D = "vec2 \<Rightarrow> vec4"

definition texture2D :: "sampler2D \<Rightarrow> vec2 \<Rightarrow> vec4" where
  "texture2D u_texture coord = u_texture coord"

section \<open>The fragment shaders\<close>

text \<open>\<^verbatim>\<open>const float PI = 3.141592653589793;\<close> of \<^verbatim>\<open>dropShaderFs\<close>.\<close>

definition PI :: real where
  "PI = 3.141592653589793"

definition dropShaderFs :: "sampler2D \<Rightarrow> vec2 \<Rightarrow> real \<Rightarrow> real \<Rightarrow> vec2 \<Rightarrow> vec4" where
  "dropShaderFs u_texture u_center u_radius u_strength v_uv =
    (let info = texture2D u_texture v_uv;
         drop = max 0 (1 - length2 (sub2 u_center v_uv) / u_radius);
         drop = 0.5 - cos (drop * PI) * 0.5;
         info = info\<lparr>v4r := v4r info + drop * u_strength\<rparr>
     in info)"

definition updateShaderFs :: "sampler2D \<Rightarrow> vec2 \<Rightarrow> real \<Rightarrow> vec2 \<Rightarrow> vec4" where
  "updateShaderFs u_texture u_delta u_damping v_uv =
    (let info = texture2D u_texture v_uv;
         dx = Vec2 (v2x u_delta) 0;
         dy = Vec2 0 (v2y u_delta);
         average = (v4r (texture2D u_texture (sub2 v_uv dx)) +
                    v4r (texture2D u_texture (add2 v_uv dx)) +
                    v4r (texture2D u_texture (sub2 v_uv dy)) +
                    v4r (texture2D u_texture (add2 v_uv dy))) * 0.25;
         info = info\<lparr>v4g := v4g info + (average - v4r info) * 2\<rparr>;
         info = info\<lparr>v4g := v4g info * u_damping\<rparr>;
         info = info\<lparr>v4r := v4r info + v4g info\<rparr>
     in info)"

definition normalShaderFs :: "sampler2D \<Rightarrow> vec2 \<Rightarrow> vec2 \<Rightarrow> vec4" where
  "normalShaderFs u_texture u_delta v_uv =
    (let info = texture2D u_texture v_uv;
         dx = Vec3 (v2x u_delta)
                (v4r (texture2D u_texture (add2 v_uv (Vec2 (v2x u_delta) 0))) - v4r info) 0;
         dy = Vec3 0
                (v4r (texture2D u_texture (add2 v_uv (Vec2 0 (v2y u_delta)))) - v4r info)
                (v2y u_delta);
         n = normalize (cross dy dx);
         info = info\<lparr>v4b := v3x n, v4a := v3z n\<rparr>
     in info)"

text \<open>\<^verbatim>\<open>volumeInSphere\<close> reads the uniform \<^verbatim>\<open>u_radius\<close> and the varying \<^verbatim>\<open>v_uv\<close>.\<close>

definition volumeInSphere :: "real \<Rightarrow> vec2 \<Rightarrow> vec3 \<Rightarrow> real" where
  "volumeInSphere u_radius v_uv center =
    (let worldPos = Vec3 (v2x v_uv * 2 - 1) 0 (v2y v_uv * 2 - 1);
         to_center_2d = sub2 (Vec2 (v3x worldPos) (v3z worldPos)) (Vec2 (v3x center) (v3z center));
         t = length2 to_center_2d / u_radius;
         dy = exp (- pow (t * 1.5) 6);
         ymin = min 0 (v3y center - dy);
         ymax = min (max 0 (v3y center + dy)) (ymin + 2 * dy)
     in (ymax - ymin) * 0.1)"

definition sphereShaderFs :: "sampler2D \<Rightarrow> vec3 \<Rightarrow> vec3 \<Rightarrow> real \<Rightarrow> vec2 \<Rightarrow> vec4" where
  "sphereShaderFs u_texture u_oldCenter u_newCenter u_radius v_uv =
    (let info = texture2D u_texture v_uv;
         info = info\<lparr>v4r := v4r info + volumeInSphere u_radius v_uv u_oldCenter\<rparr>;
         info = info\<lparr>v4r := v4r info - volumeInSphere u_radius v_uv u_newCenter\<rparr>
     in info)"

section \<open>The class GPGPUWater\<close>

text \<open>
  The two render targets, and the uniforms that outlive a call: \<^verbatim>\<open>u_delta\<close>, set by the
  constructor to \<^verbatim>\<open>Vector2(1/size, 1/size)\<close> in both the update and the normal material,
  and \<^verbatim>\<open>u_damping\<close>. The other uniforms are assigned from the arguments of each method
  right before it renders, \<^verbatim>\<open>u_texture\<close> always from \<^verbatim>\<open>targets.read.texture\<close>.
\<close>

record GPGPUWater =
  targets_read :: sampler2D
  targets_write :: sampler2D
  u_delta :: vec2
  u_damping :: real

definition GPGPUWater_new :: "nat \<Rightarrow> GPGPUWater" where
  "GPGPUWater_new sz =
    \<lparr>targets_read = (\<lambda>_. \<lparr>v4r = 0, v4g = 0, v4b = 0, v4a = 0\<rparr>),
     targets_write = (\<lambda>_. \<lparr>v4r = 0, v4g = 0, v4b = 0, v4a = 0\<rparr>),
     u_delta = Vec2 (1 / real sz) (1 / real sz),
     u_damping = 0.995\<rparr>"

definition targets_swap :: "GPGPUWater \<Rightarrow> GPGPUWater" where
  "targets_swap w =
    (let t = targets_read w in w\<lparr>targets_read := targets_write w, targets_write := t\<rparr>)"

text \<open>
  \<^verbatim>\<open>render\<close>: the mesh's current material draws a full-screen quad into \<^verbatim>\<open>targets.write\<close>,
  then the targets are swapped. The argument is the fragment program of that material
  with its uniforms bound.
\<close>

definition render :: "(vec2 \<Rightarrow> vec4) \<Rightarrow> GPGPUWater \<Rightarrow> GPGPUWater" where
  "render fragmentShader w = targets_swap (w\<lparr>targets_write := (\<lambda>v_uv. fragmentShader v_uv)\<rparr>)"

definition addDrop :: "real \<Rightarrow> real \<Rightarrow> real \<Rightarrow> real \<Rightarrow> GPGPUWater \<Rightarrow> GPGPUWater" where
  "addDrop px py radius strength w =
     render (dropShaderFs (targets_read w) (Vec2 px py) radius strength) w"

definition moveSphere :: "vec3 \<Rightarrow> vec3 \<Rightarrow> real \<Rightarrow> GPGPUWater \<Rightarrow> GPGPUWater" where
  "moveSphere oldCenter newCenter radius w =
     render (sphereShaderFs (targets_read w) oldCenter newCenter radius) w"

definition step :: "GPGPUWater \<Rightarrow> GPGPUWater" where
  "step w = render (updateShaderFs (targets_read w) (u_delta w) (u_damping w)) w"

definition setDamping :: "real \<Rightarrow> GPGPUWater \<Rightarrow> GPGPUWater" where
  "setDamping damping w = w\<lparr>u_damping := damping\<rparr>"

definition updateNormals :: "GPGPUWater \<Rightarrow> GPGPUWater" where
  "updateNormals w = render (normalShaderFs (targets_read w) (u_delta w)) w"

definition getTexture :: "GPGPUWater \<Rightarrow> sampler2D" where
  "getTexture w = targets_read w"

section \<open>three.js helpers used by the engine\<close>

text \<open>
  \<^verbatim>\<open>Vector2.distanceTo\<close>, \<^verbatim>\<open>Vector3.distanceTo\<close>, \<^verbatim>\<open>Vector2.lerp\<close>, \<^verbatim>\<open>Vector3.clamp\<close>,
  \<^verbatim>\<open>Vector3.add\<close>, \<^verbatim>\<open>Vector3.multiplyScalar\<close>, \<^verbatim>\<open>MathUtils.clamp\<close> and \<^verbatim>\<open>MathUtils.lerp\<close>,
  as the library defines them.
\<close>

definition distanceTo2 :: "vec2 \<Rightarrow> vec2 \<Rightarrow> real" where
  "distanceTo2 p q =
    (let dx = v2x p - v2x q; dy = v2y p - v2y q in sqrt (dx * dx + dy * dy))"

definition distanceTo3 :: "vec3 \<Rightarrow> vec3 \<Rightarrow> real" where
  "distanceTo3 p q =
    (let dx = v3x p - v3x q; dy = v3y p - v3y q; dz = v3z p - v3z q
     in sqrt (dx * dx + dy * dy + dz * dz))"

definition lerp2 :: "vec2 \<Rightarrow> vec2 \<Rightarrow> real \<Rightarrow> vec2" where
  "lerp2 p q alpha = Vec2 (v2x p + (v2x q - v2x p) * alpha) (v2y p + (v2y q - v2y p) * alpha)"

definition clamp :: "real \<Rightarrow> real \<Rightarrow> real \<Rightarrow> real" where
  "clamp val lo hi = max lo (min hi val)"

definition clamp3 :: "vec3 \<Rightarrow> vec3 \<Rightarrow> vec3 \<Rightarrow> vec3" where
  "clamp3 p lo hi = Vec3 (max (v3x lo) (min (v3x hi) (v3x p)))
                         (max (v3y lo) (min (v3y hi) (v3y p)))
                         (max (v3z lo) (min (v3z hi) (v3z p)))"

definition add3 :: "vec3 \<Rightarrow> vec3 \<Rightarrow> vec3" where
  "add3 p q = Vec3 (v3x p + v3x q) (v3y p + v3y q) (v3z p + v3z q)"

definition multiplyScalar :: "vec3 \<Rightarrow> real \<Rightarrow> vec3" where
  "multiplyScalar p s = Vec3 (v3x p * s) (v3y p * s) (v3z p * s)"

definition lerp :: "real \<Rightarrow> real \<Rightarrow> real \<Rightarrow> real" where
  "lerp px py t = (1 - t) * px + t * py"

section \<open>The class WaterEngine\<close>

text \<open>
  A pointer event as the handlers see it once \<^verbatim>\<open>updatePointer\<close> and the raycaster have
  run: the hit points of \<^verbatim>\<open>raycaster.intersectObject(this.sphere)\<close>, and the value of
  \<^verbatim>\<open>point\<close> after \<^verbatim>\<open>ray.intersectPlane\<close> with the drag plane and with the water plane.
\<close>

record PointerEvent =
  intersectObject_sphere :: "vec3 list"
  intersectPlane_dragPlane :: vec3
  intersectPlane_waterPlane :: vec3

text \<open>
  The fields of the engine that the handlers and the frame callback read or assign.
  \<open>addDrop_calls\<close> is not a field of the class: it records, in order, the arguments of
  every \<^verbatim>\<open>this.waterSim.addDrop\<close> call the engine has made, so that injections can be
  counted.
\<close>

record WaterEngine =
  waterSim :: GPGPUWater
  addDrop_calls :: "(real \<times> real \<times> real \<times> real) list"
  controls_enabled :: bool
  sphere_position :: vec3
  isDraggingSphere :: bool
  lastWaterInteractionPoint :: "vec2 option"
  oldSpherePos :: vec3
  isPaused :: bool
  gravityEnabled :: bool
  sphereRadius :: real
  sphereVelocity :: vec3
  poolSize :: real
  poolHeight :: real
  windStrength :: real
  interactionStrength :: real
  waveSpeed :: real
  accumulatedWaveTime :: real

text \<open>
  The field initialisers and the constructor, up to the call that starts the frame loop:
  the first frame is an \<^verbatim>\<open>animate\<close> like any other.
\<close>

definition WaterEngine_new :: WaterEngine where
  "WaterEngine_new =
    \<lparr>waterSim = GPGPUWater_new 128,
     addDrop_calls = [],
     controls_enabled = True,
     sphere_position = Vec3 (-0.3) (-0.1) 0.3,
     isDraggingSphere = False,
     lastWaterInteractionPoint = None,
     oldSpherePos = Vec3 (-0.3) (-0.1) 0.3,
     isPaused = False,
     gravityEnabled = True,
     sphereRadius = 0.25,
     sphereVelocity = Vec3 0 0 0,
     poolSize = 2.0,
     poolHeight = 1.0,
     windStrength = 0.0005,
     interactionStrength = 0.03,
     waveSpeed = 1.0,
     accumulatedWaveTime = 0\<rparr>"

text \<open>\<^verbatim>\<open>this.waterSim.addDrop(x, y, radius, strength)\<close>.\<close>

definition waterSim_addDrop :: "real \<Rightarrow> real \<Rightarrow> real \<Rightarrow> real \<Rightarrow> WaterEngine \<Rightarrow> WaterEngine" where
  "waterSim_addDrop px py radius strength e =
    e\<lparr>waterSim := addDrop px py radius strength (waterSim e),
      addDrop_calls := addDrop_calls e @ [(px, py, radius, strength)]\<rparr>"

text \<open>
  \<^verbatim>\<open>new THREE.Vector2(point.x/this.poolSize + 0.5, 0.5 - point.z/this.poolSize)\<close>, the
  water-plane point as fluid coordinates, in both \<^verbatim>\<open>onPointerDown\<close> and
  \<^verbatim>\<open>onPointerMove\<close>.
\<close>

definition waterUv :: "real \<Rightarrow> vec3 \<Rightarrow> vec2" where
  "waterUv poolSz point = Vec2 (v3x point / poolSz + 0.5) (0.5 - v3z point / poolSz)"

definition onPointerDown :: "PointerEvent \<Rightarrow> WaterEngine \<Rightarrow> WaterEngine" where
  "onPointerDown ev e =
    (let intersects = intersectObject_sphere ev in
     if length intersects > 0 then
       e\<lparr>isDraggingSphere := True, controls_enabled := False\<rparr>
     else
       let point = intersectPlane_waterPlane ev;
           uv = waterUv (poolSize e) point
       in if v2x uv \<ge> 0 \<and> v2x uv \<le> 1 \<and> v2y uv \<ge> 0 \<and> v2y uv \<le> 1 then
            waterSim_addDrop (v2x uv) (v2y uv) 0.03 (interactionStrength e)
              (e\<lparr>controls_enabled := False\<rparr>)
          else e)"

text \<open>The \<^verbatim>\<open>for\<close> loop of \<^verbatim>\<open>onPointerMove\<close>, from counter \<open>i\<close> on.\<close>

function trail_loop :: "nat \<Rightarrow> nat \<Rightarrow> vec2 \<Rightarrow> vec2 \<Rightarrow> real \<Rightarrow> WaterEngine \<Rightarrow> WaterEngine" where
  "trail_loop i segments lastPoint currentUv strength e =
    (if i < segments then
       let t = real i / real segments;
           uv = lerp2 lastPoint currentUv t
       in trail_loop (Suc i) segments lastPoint currentUv strength
            (waterSim_addDrop (v2x uv) (v2y uv) 0.02 strength e)
     else e)"
  by pat_completeness auto
termination
  by (relation "measure (\<lambda>(i, segments, _). segments - i)") auto

declare trail_loop.simps [simp del]

definition onPointerMove :: "PointerEvent \<Rightarrow> WaterEngine \<Rightarrow> WaterEngine" where
  "onPointerMove ev e =
    (if isDraggingSphere e then
       let point = intersectPlane_dragPlane ev;
           limit = poolSize e / 2 - sphereRadius e
       in e\<lparr>sphere_position :=
              clamp3 point (Vec3 (- limit) (- poolHeight e + sphereRadius e) (- limit))
                           (Vec3 limit 0.5 limit)\<rparr>
     else if length (intersectObject_sphere ev) > 0 then
       e\<lparr>lastWaterInteractionPoint := None\<rparr>
     else
       let point = intersectPlane_waterPlane ev;
           currentUv = waterUv (poolSize e) point
       in if v2x currentUv < 0 \<or> v2x currentUv > 1 \<or> v2y currentUv < 0 \<or> v2y currentUv > 1 then
            e\<lparr>lastWaterInteractionPoint := None\<rparr>
          else
            let e = (case lastWaterInteractionPoint e of
                       Some lastPoint \<Rightarrow>
                         let dst = distanceTo2 currentUv lastPoint;
                             strength = min (interactionStrength e)
                                            (0.01 + dst * interactionStrength e * 8.0);
                             segments = max 1 \<lceil>dst / 0.015\<rceil>
                         in trail_loop 0 (nat segments) lastPoint currentUv strength e
                     | None \<Rightarrow> e)
            in e\<lparr>lastWaterInteractionPoint := Some currentUv\<rparr>)"

definition onPointerUp :: "WaterEngine \<Rightarrow> WaterEngine" where
  "onPointerUp e =
    e\<lparr>isDraggingSphere := False, controls_enabled := True, lastWaterInteractionPoint := None\<rparr>"

definition onPointerLeave :: "WaterEngine \<Rightarrow> WaterEngine" where
  "onPointerLeave e = e\<lparr>lastWaterInteractionPoint := None, controls_enabled := True\<rparr>"

text \<open>
  The block of \<^verbatim>\<open>animate\<close> that computes the local \<^verbatim>\<open>submergedRatio\<close> from the sphere
  radius \<open>r\<close> and the height \<open>y\<close> of its centre.
\<close>

definition submergedRatio :: "real \<Rightarrow> real \<Rightarrow> real" where
  "submergedRatio r y =
    (if y > r then 0
     else if y < - r then 1
     else clamp ((r - y) / (2 * r)) 0 1)"

text \<open>The sphere physics of \<^verbatim>\<open>animate\<close>.\<close>

definition sphere_physics :: "WaterEngine \<Rightarrow> WaterEngine" where
  "sphere_physics e =
    (if \<not> isDraggingSphere e \<and> gravityEnabled e then
       let GRAVITY = - 0.012;
           BUOYANCY_MAX = 0.024;
           DRAG_AIR = 0.995;
           DRAG_WATER = 0.90;
           vel = sphereVelocity e;
           vel = vel\<lparr>v3y := v3y vel + GRAVITY\<rparr>;
           ratio = submergedRatio (sphereRadius e) (v3y (sphere_position e));
           vel = (if ratio > 0 then vel\<lparr>v3y := v3y vel + BUOYANCY_MAX * ratio\<rparr> else vel);
           drag = lerp DRAG_AIR DRAG_WATER ratio;
           vel = multiplyScalar vel drag;
           pos = add3 (sphere_position e) vel;
           floorY = - poolHeight e + sphereRadius e
       in if v3y pos < floorY then
            e\<lparr>sphere_position := pos\<lparr>v3y := floorY\<rparr>,
              sphereVelocity := (if v3y vel < 0 then vel\<lparr>v3y := v3y vel * (- 0.3)\<rparr> else vel)\<rparr>
          else e\<lparr>sphere_position := pos, sphereVelocity := vel\<rparr>
     else if isDraggingSphere e then e\<lparr>sphereVelocity := Vec3 0 0 0\<rparr>
     else e)"

text \<open>
  The block of \<^verbatim>\<open>animate\<close> under the comment \<^verbatim>\<open>// Sphere Interaction\<close>: the displacement
  pass runs only when the sphere is more than 0.001 away from where the last pass left it.
\<close>

definition sphere_interaction :: "WaterEngine \<Rightarrow> WaterEngine" where
  "sphere_interaction e =
    (if distanceTo3 (oldSpherePos e) (sphere_position e) > 0.001 then
       e\<lparr>waterSim :=
            moveSphere
              (Vec3 (v3x (oldSpherePos e)) (v3y (oldSpherePos e)) (- v3z (oldSpherePos e)))
              (Vec3 (v3x (sphere_position e)) (v3y (sphere_position e))
                    (- v3z (sphere_position e)))
              (sphereRadius e) (waterSim e),
         oldSpherePos := sphere_position e\<rparr>
     else e)"

text \<open>
  One frame: \<^verbatim>\<open>animate\<close> with \<open>delta\<close> the value of \<^verbatim>\<open>clock.getDelta()\<close>, up to the
  two simulation passes (what follows hands the texture to the renderer).
\<close>

definition animate :: "real \<Rightarrow> WaterEngine \<Rightarrow> WaterEngine" where
  "animate delta e =
    (if isPaused e then e
     else
       let e = e\<lparr>accumulatedWaveTime := accumulatedWaveTime e + delta * waveSpeed e\<rparr>;
           e = sphere_physics e;
           e = waterSim_addDrop (sin (accumulatedWaveTime e * 0.3 + 2) * 0.5 + 0.5)
                 (cos (accumulatedWaveTime e * 0.5 + 1) * 0.5 + 0.5) 0.05 (windStrength e) e;
           e = waterSim_addDrop (sin (accumulatedWaveTime e * 0.2 - 1) * 0.5 + 0.5)
                 (cos (accumulatedWaveTime e * 0.4 - 3) * 0.5 + 0.5) 0.08
                 (- windStrength e * 0.7) e;
           e = sphere_interaction e;
           e = e\<lparr>waterSim := step (waterSim e)\<rparr>;
           e = e\<lparr>waterSim := updateNormals (waterSim e)\<rparr>
       in e)"

section \<open>Example inputs\<close>

text \<open>A pointer whose ray misses the sphere and meets the water plane at \<open>(px, 0, pz)\<close>.\<close>

definition pointer_at :: "real \<Rightarrow> real \<Rightarrow> PointerEvent" where
  "pointer_at px pz =
    \<lparr>intersectObject_sphere = [],
     intersectPlane_dragPlane = Vec3 0 0 0,
     intersectPlane_waterPlane = Vec3 px 0 pz\<rparr>"

text \<open>A pointer whose ray hits the sphere at its initial position.\<close>

definition pointer_on_sphere :: PointerEvent where
  "pointer_on_sphere =
    \<lparr>intersectObject_sphere = [Vec3 (- 0.3) 0.15 0.3],
     intersectPlane_dragPlane = Vec3 (- 0.3) 0.15 0.3,
     intersectPlane_waterPlane = Vec3 (- 0.3) 0 0.3\<rparr>"

text \<open>A texture that is not flat: height \<open>u\<^sup>2\<close>, velocity \<open>v\<close>.\<close>

definition ripple :: sampler2D where
  "ripple coord = \<lparr>v4r = v2x coord * v2x coord, v4g = v2y coord, v4b = 0, v4a = 0\<rparr>"

section \<open>Basic facts\<close>

lemma Vec2_sel [simp]: "v2x (Vec2 a b) = a" "v2y (Vec2 a b) = b"
  by (simp_all add: Vec2_def)

lemma Vec3_sel [simp]: "v3x (Vec3 a b c) = a" "v3y (Vec3 a b c) = b" "v3z (Vec3 a b c) = c"
  by (simp_all add: Vec3_def)

text \<open>After a pass the read target holds what the shader wrote; the uniforms stay.\<close>

lemma read_render: "targets_read (render f w) = f"
  by (simp add: render_def targets_swap_def)

lemma uniforms_render: "u_delta (render f w) = u_delta w" "u_damping (render f w) = u_damping w"
  by (simp_all add: render_def targets_swap_def)

lemma u_delta_new: "u_delta (GPGPUWater_new N) = Vec2 (1 / real N) (1 / real N)"
  by (simp add: GPGPUWater_new_def)

lemma length2_sub2:
  "length2 (sub2 (Vec2 cu cv) (Vec2 u v)) = sqrt ((u - cu)\<^sup>2 + (v - cv)\<^sup>2)"
proof -
  have "(cu - u) * (cu - u) = (u - cu)\<^sup>2" "(cv - v) * (cv - v) = (v - cv)\<^sup>2"
    by (simp_all add: power2_eq_square algebra_simps)
  then show ?thesis
    by (simp add: length2_def sub2_def)
qed

lemma distanceTo2_eq:
  "distanceTo2 p q = sqrt ((v2x p - v2x q)\<^sup>2 + (v2y p - v2y q)\<^sup>2)"
  by (simp add: distanceTo2_def Let_def power2_eq_square)

section \<open>The wave update pass\<close>

text \<open>
  C1. One \<^verbatim>\<open>step\<close> on a grid of \<open>N\<close> by \<open>N\<close> cells (so that \<^verbatim>\<open>u_delta\<close> is \<open>(1/N, 1/N)\<close>, as
  the constructor sets it): at every cell \<open>(u, v)\<close>, with \<open>avg\<close> the mean of the heights the
  read buffer holds at \<open>(u - 1/N, v)\<close>, \<open>(u + 1/N, v)\<close>, \<open>(u, v - 1/N)\<close> and \<open>(u, v + 1/N)\<close>,
  the new velocity is \<open>(velocity + 2 * (avg - height)) * damping\<close> and the new height is
  \<open>height\<close> plus the new velocity.
\<close>

theorem step_wave_update:
  assumes "0 < N" and "u_delta w = Vec2 (1 / real N) (1 / real N)"
  shows "let height = v4r (targets_read w (Vec2 u v));
             velocity = v4g (targets_read w (Vec2 u v));
             avg = (v4r (targets_read w (Vec2 (u - 1 / real N) v)) +
                    v4r (targets_read w (Vec2 (u + 1 / real N) v)) +
                    v4r (targets_read w (Vec2 u (v - 1 / real N))) +
                    v4r (targets_read w (Vec2 u (v + 1 / real N)))) / 4;
             velocity' = (velocity + 2 * (avg - height)) * u_damping w
         in v4g (targets_read (step w) (Vec2 u v)) = velocity' \<and>
            v4r (targets_read (step w) (Vec2 u v)) = height + velocity'"
  using assms(2)
  by (simp add: step_def read_render updateShaderFs_def texture2D_def Let_def add2_def sub2_def
      Vec2_def)

text \<open>On the 128 grid with the texture \<open>ripple\<close>, at the cell \<open>(1/2, 1/2)\<close>.\<close>

theorem step_wave_update_witness:
  "(0::nat) < 128 \<and>
   u_delta ((GPGPUWater_new 128)\<lparr>targets_read := ripple\<rparr>) = Vec2 (1 / real 128) (1 / real 128) \<and>
   v4g (targets_read (step ((GPGPUWater_new 128)\<lparr>targets_read := ripple\<rparr>))
          (Vec2 (1 / 2) (1 / 2))) = (1 / 2 + 2 * (1 / 32768)) * 0.995 \<and>
   v4r (targets_read (step ((GPGPUWater_new 128)\<lparr>targets_read := ripple\<rparr>))
          (Vec2 (1 / 2) (1 / 2))) = 1 / 4 + (1 / 2 + 2 * (1 / 32768)) * 0.995"
  using step_wave_update [of 128 "(GPGPUWater_new 128)\<lparr>targets_read := ripple\<rparr>" "1 / 2" "1 / 2"]
  by (simp add: GPGPUWater_new_def ripple_def Let_def power2_eq_square)

lemma step_rest:
  assumes "\<forall>p. v4r (targets_read w p) = 0 \<and> v4g (targets_read w p) = 0"
  shows "\<forall>p. v4r (targets_read (step w) p) = 0 \<and> v4g (targets_read (step w) p) = 0"
  using assms
  by (simp add: step_def read_render updateShaderFs_def texture2D_def Let_def)

lemma steps_rest:
  assumes "\<forall>p. v4r (targets_read w p) = 0 \<and> v4g (targets_read w p) = 0"
  shows "\<forall>p. v4r (targets_read ((step ^^ n) w) p) = 0 \<and> v4g (targets_read ((step ^^ n) w) p) = 0"
proof (induction n)
  case 0
  show ?case using assms by simp
next
  case (Suc n)
  show ?case using step_rest [OF Suc.IH] by simp
qed

text \<open>
  C4. From a grid whose every cell has height 0 and velocity 0, \<open>n\<close> successive \<^verbatim>\<open>step\<close>
  passes, for any \<open>n\<close> and whatever damping has been set, leave every cell at height 0 and
  velocity 0.
\<close>

theorem rest_invariant:
  assumes "\<forall>p. v4r (targets_read w p) = 0 \<and> v4g (targets_read w p) = 0"
  shows "v4r (targets_read ((step ^^ n) (setDamping damping w)) v_uv) = 0 \<and>
         v4g (targets_read ((step ^^ n) (setDamping damping w)) v_uv) = 0"
proof -
  have "\<forall>p. v4r (targets_read (setDamping damping w) p) = 0 \<and>
            v4g (targets_read (setDamping damping w) p) = 0"
    using assms by (simp add: setDamping_def)
  from steps_rest [OF this] show ?thesis
    by blast
qed

text \<open>Three steps from the freshly constructed grid, with a damping above 1.\<close>

theorem rest_invariant_witness:
  "(\<forall>p. v4r (targets_read (GPGPUWater_new 128) p) = 0 \<and>
        v4g (targets_read (GPGPUWater_new 128) p) = 0) \<and>
   v4r (targets_read ((step ^^ 3) (setDamping 2 (GPGPUWater_new 128))) (Vec2 (1 / 256) (1 / 256))) = 0 \<and>
   v4g (targets_read ((step ^^ 3) (setDamping 2 (GPGPUWater_new 128))) (Vec2 (1 / 256) (1 / 256))) = 0"
  using rest_invariant [of "GPGPUWater_new 128" 3 2 "Vec2 (1 / 256) (1 / 256)"]
  by (simp add: GPGPUWater_new_def)

text \<open>
  C10. \<^verbatim>\<open>step\<close> leaves the two normal channels of every cell as they were, and
  \<^verbatim>\<open>updateNormals\<close> leaves the height and the velocity of every cell as they were.
\<close>

theorem passes_frame:
  "v4b (targets_read (step w) v_uv) = v4b (targets_read w v_uv) \<and>
   v4a (targets_read (step w) v_uv) = v4a (targets_read w v_uv) \<and>
   v4r (targets_read (updateNormals w) v_uv) = v4r (targets_read w v_uv) \<and>
   v4g (targets_read (updateNormals w) v_uv) = v4g (targets_read w v_uv)"
  by (simp add: step_def updateNormals_def read_render updateShaderFs_def normalShaderFs_def
      texture2D_def Let_def)

section \<open>The disturbance injection pass\<close>

text \<open>What \<^verbatim>\<open>addDrop\<close> leaves in the read target, cell by cell.\<close>

lemma addDrop_read:
  "targets_read (addDrop cu cv radius strength w) (Vec2 u v) =
     (targets_read w (Vec2 u v))\<lparr>v4r := v4r (targets_read w (Vec2 u v)) +
        (0.5 - cos (max 0 (1 - sqrt ((u - cu)\<^sup>2 + (v - cv)\<^sup>2) / radius) * PI) * 0.5) *
        strength\<rparr>"
  by (simp add: addDrop_def read_render dropShaderFs_def texture2D_def Let_def length2_sub2)

lemma drop_rim:
  assumes "0 < radius" and "radius \<le> d"
  shows "max 0 (1 - d / radius) = (0::real)"
proof -
  have "1 \<le> d / radius"
    using assms by (simp add: le_divide_eq)
  then show ?thesis
    by simp
qed

lemma addDrop_outside:
  assumes "0 < radius" and "radius \<le> sqrt ((u - cu)\<^sup>2 + (v - cv)\<^sup>2)"
  shows "targets_read (addDrop cu cv radius strength w) (Vec2 u v) = targets_read w (Vec2 u v)"
  unfolding addDrop_read drop_rim [OF assms] by simp

text \<open>Strictly inside the rim the pulse is positive.\<close>

lemma drop_positive:
  assumes "0 < d" and "d \<le> 1 / 2"
  shows "0 < 0.5 - cos (d * PI) * (0.5::real)"
proof -
  have "d * PI \<le> 1 / 2 * PI"
    using assms by (simp add: PI_def)
  also have "\<dots> \<le> 2"
    by (simp add: PI_def)
  also have "\<dots> \<le> pi"
    by (rule pi_ge_two)
  finally have "d * PI \<le> pi" .
  moreover have "0 < d * PI"
    using assms by (simp add: PI_def)
  ultimately have "cos (d * PI) < cos 0"
    by (intro cos_monotone_0_pi) simp_all
  then show ?thesis
    by simp
qed

text \<open>The cosine between 0 and a full turn, and between 2 and 3.\<close>

lemma cos_less_one:
  assumes "0 < x" and "x < 2 * pi"
  shows "cos x < 1"
proof (cases "x \<le> pi")
  case True
  with assms have "cos x < cos 0"
    by (intro cos_monotone_0_pi) simp_all
  then show ?thesis
    by simp
next
  case False
  with assms have "cos (2 * pi - x) < cos 0"
    by (intro cos_monotone_0_pi) simp_all
  then show ?thesis
    by simp
qed

lemma cos_negative:
  assumes "2 \<le> x" and "x < (3::real)"
  shows "cos x < 0"
proof -
  have "pi / 2 < 2"
    using pi_less_4 by simp
  moreover have "3 \<le> 3 * pi / 2"
    using pi_ge_two by simp
  ultimately have "- (pi / 2) < x - pi" and "x - pi < pi / 2"
    using assms by linarith+
  then have "0 < cos (x - pi)"
    by (rule cos_gt_zero_pi)
  then show ?thesis
    by simp
qed

text \<open>Anywhere inside the rim the pulse is positive.\<close>

lemma drop_inside:
  assumes "0 < d" and "d \<le> 1"
  shows "0 < 0.5 - cos (d * 3.141592653589793) * (0.5::real)"
proof -
  have "d * 3.141592653589793 \<le> 1 * 3.141592653589793"
    using assms by simp
  also have "\<dots> < 2 * 2"
    by simp
  also have "\<dots> \<le> 2 * pi"
    using pi_ge_two by simp
  finally have "d * 3.141592653589793 < 2 * pi" .
  moreover have "0 < d * 3.141592653589793"
    using assms by simp
  ultimately have "cos (d * 3.141592653589793) < 1"
    by (rule cos_less_one [rotated])
  then show ?thesis
    by simp
qed

lemma drop_inside_rim:
  assumes "0 < radius" and "0 \<le> dst" and "dst < radius"
  shows "0 < max 0 (1 - dst / radius)" "max 0 (1 - dst / radius) \<le> (1::real)"
proof -
  have "dst / radius < 1"
    using assms by simp
  then show "0 < max 0 (1 - dst / radius)"
    by simp
  have "0 \<le> dst / radius"
    using assms by simp
  then show "max 0 (1 - dst / radius) \<le> 1"
    by simp
qed

text \<open>
  C2. \<^verbatim>\<open>addDrop(cu, cv, radius, strength)\<close> with \<open>0 < radius\<close>: the texel of every cell
  \<open>(u, v)\<close> is the old texel with its height raised by \<open>drop * strength\<close>, where
  \<open>d = max(0, 1 - distance / radius)\<close>, \<open>distance\<close> is the distance from \<open>(u, v)\<close> to
  \<open>(cu, cv)\<close>, and \<open>drop = 0.5 - cos(d * 3.141592653589793) * 0.5\<close>, the number being the
  value the shader gives to \<open>\<pi>\<close>. So velocity and both normal channels are unchanged, a
  cell at distance at least \<open>radius\<close> keeps its height, and for a cell closer than
  \<open>radius\<close> the pulse \<open>drop\<close> is positive.
\<close>

theorem addDrop_pulse:
  assumes "0 < radius"
  shows "let distance = sqrt ((u - cu)\<^sup>2 + (v - cv)\<^sup>2);
             d = max 0 (1 - distance / radius);
             drop = 0.5 - cos (d * 3.141592653589793) * 0.5;
             old = targets_read w (Vec2 u v);
             new = targets_read (addDrop cu cv radius strength w) (Vec2 u v)
         in new = old\<lparr>v4r := v4r old + drop * strength\<rparr> \<and>
            v4g new = v4g old \<and> v4b new = v4b old \<and> v4a new = v4a old \<and>
            (radius \<le> distance \<longrightarrow> v4r new = v4r old) \<and>
            (distance < radius \<longrightarrow> 0 < drop)"
proof -
  have "0 < 0.5 - cos (max 0 (1 - sqrt ((u - cu)\<^sup>2 + (v - cv)\<^sup>2) / radius) *
                      3.141592653589793) * (0.5::real)"
    if "sqrt ((u - cu)\<^sup>2 + (v - cv)\<^sup>2) < radius"
    by (rule drop_inside) (rule drop_inside_rim [OF assms _ that], simp)+
  then show ?thesis
    unfolding Let_def addDrop_read PI_def using drop_rim [OF assms] by simp
qed

text \<open>
  \<^verbatim>\<open>addDrop(0.5, 0.5, 0.05, 0.1)\<close> on the fresh grid, at two texel centres: at
  \<open>(127/256, 255/256)\<close> in the last row, farther than the radius from the drop, nothing
  changes; at \<open>(127/256, 127/256)\<close>, next to the centre of the drop, the height rises by
  more than half the strength and the velocity stays 0.
\<close>

theorem addDrop_pulse_witness:
  "(0::real) < 0.05 \<and>
   0.05 \<le> sqrt ((127 / 256 - 0.5)\<^sup>2 + (255 / 256 - 0.5)\<^sup>2) \<and>
   targets_read (addDrop 0.5 0.5 0.05 0.1 (GPGPUWater_new 128)) (Vec2 (127 / 256) (255 / 256)) =
     \<lparr>v4r = 0, v4g = 0, v4b = 0, v4a = 0\<rparr> \<and>
   sqrt ((127 / 256 - 0.5)\<^sup>2 + (127 / 256 - 0.5)\<^sup>2) < 0.05 \<and>
   0.05 < v4r (targets_read (addDrop 0.5 0.5 0.05 0.1 (GPGPUWater_new 128))
                 (Vec2 (127 / 256) (127 / 256))) \<and>
   v4g (targets_read (addDrop 0.5 0.5 0.05 0.1 (GPGPUWater_new 128))
          (Vec2 (127 / 256) (127 / 256))) = 0"
proof -
  let ?far = "targets_read (addDrop 0.5 0.5 0.05 0.1 (GPGPUWater_new 128))
                (Vec2 (127 / 256) (255 / 256))"
  let ?near = "targets_read (addDrop 0.5 0.5 0.05 0.1 (GPGPUWater_new 128))
                 (Vec2 (127 / 256) (127 / 256))"
  define dst :: real where "dst = sqrt ((127 / 256 - 0.5)\<^sup>2 + (127 / 256 - 0.5)\<^sup>2)"
  have far: "0.05 \<le> sqrt ((127 / 256 - 0.5)\<^sup>2 + (255 / 256 - 0.5)\<^sup>2)"
    by (rule real_le_rsqrt) (simp add: power2_eq_square)
  have lo: "0.004 \<le> dst"
    unfolding dst_def by (rule real_le_rsqrt) (simp add: power2_eq_square)
  have hi: "dst \<le> 0.006"
    unfolding dst_def by (rule real_le_lsqrt) (simp_all add: power2_eq_square)
  have near: "dst < 0.05"
    using hi by simp
  have pos: "(0::real) < 0.05"
    by simp
  have w: "targets_read (GPGPUWater_new 128) p = \<lparr>v4r = 0, v4g = 0, v4b = 0, v4a = 0\<rparr>" for p
    by (simp add: GPGPUWater_new_def)
  have "v4r ?far = 0 \<and> v4g ?far = 0 \<and> v4b ?far = 0 \<and> v4a ?far = 0"
    using addDrop_pulse [OF pos, of "127 / 256" "0.5" "255 / 256" "0.5" "GPGPUWater_new 128" "0.1"]
      far
    unfolding Let_def w by simp
  then have f: "?far = \<lparr>v4r = 0, v4g = 0, v4b = 0, v4a = 0\<rparr>"
    by (cases ?far) simp
  have m: "max 0 (1 - dst / 0.05) = 1 - dst / 0.05"
    using near by simp
  have "2 \<le> (1 - dst / 0.05) * 3.141592653589793"
    and "(1 - dst / 0.05) * 3.141592653589793 < 3"
    using lo hi by simp_all
  then have c: "cos ((1 - dst / 0.05) * 3.141592653589793) < 0"
    by (rule cos_negative)
  have "v4r ?near = (0.5 - cos ((1 - dst / 0.05) * 3.141592653589793) * 0.5) * 0.1 \<and>
        v4g ?near = 0"
    using addDrop_pulse [OF pos, of "127 / 256" "0.5" "127 / 256" "0.5" "GPGPUWater_new 128" "0.1"]
    unfolding Let_def w dst_def [symmetric] m by simp
  with c have n: "0.05 < v4r ?near \<and> v4g ?near = 0"
    by simp
  from f n far near show ?thesis
    unfolding dst_def by simp
qed

section \<open>The rigid-body displacement pass\<close>

lemma pow6: "0 \<le> t \<Longrightarrow> pow (t * 1.5) 6 = (1.5 * t) ^ 6"
  by (simp add: pow_def mult.commute)

lemma volumeInSphere_eq:
  assumes "0 < radius"
  shows "volumeInSphere radius (Vec2 u v) center =
    (let t = sqrt ((u * 2 - 1 - v3x center)\<^sup>2 + (v * 2 - 1 - v3z center)\<^sup>2) / radius;
         falloff = exp (- ((1.5 * t) ^ 6));
         yMin = min 0 (v3y center - falloff);
         yMax = min (max 0 (v3y center + falloff)) (yMin + 2 * falloff)
     in (yMax - yMin) * 0.1)"
proof -
  define t where "t = sqrt ((u * 2 - 1 - v3x center)\<^sup>2 + (v * 2 - 1 - v3z center)\<^sup>2) / radius"
  have len: "length2 (sub2 (Vec2 (u * 2 - 1) (v * 2 - 1)) (Vec2 (v3x center) (v3z center))) / radius = t"
    by (simp add: length2_def sub2_def power2_eq_square t_def)
  have "0 \<le> t"
    using assms by (simp add: t_def)
  then have p: "pow (t * 1.5) 6 = (1.5 * t) ^ 6"
    by (rule pow6)
  have "volumeInSphere radius (Vec2 u v) center =
    (let falloff = exp (- pow (t * 1.5) 6);
         yMin = min 0 (v3y center - falloff);
         yMax = min (max 0 (v3y center + falloff)) (yMin + 2 * falloff)
     in (yMax - yMin) * 0.1)"
    unfolding volumeInSphere_def Let_def Vec2_sel Vec3_sel len ..
  then have "volumeInSphere radius (Vec2 u v) center =
    (let falloff = exp (- ((1.5 * t) ^ 6));
         yMin = min 0 (v3y center - falloff);
         yMax = min (max 0 (v3y center + falloff)) (yMin + 2 * falloff)
     in (yMax - yMin) * 0.1)"
    by (simp only: p)
  then show ?thesis
    unfolding Let_def t_def .
qed

lemma moveSphere_read:
  "targets_read (moveSphere oldCenter newCenter radius w) v_uv =
     (targets_read w v_uv)\<lparr>v4r := v4r (targets_read w v_uv) +
        volumeInSphere radius v_uv oldCenter - volumeInSphere radius v_uv newCenter\<rparr>"
  by (simp add: moveSphere_def read_render sphereShaderFs_def texture2D_def Let_def)

text \<open>Whatever the height of the centre, the column is twice the falloff high.\<close>

lemma column_volume:
  assumes "0 \<le> f"
  shows "min (max 0 (c + f)) (min 0 (c - f) + 2 * f) - min 0 (c - f) = 2 * (f::real)"
  using assms by (simp add: min_def max_def)

text \<open>
  C3. \<^verbatim>\<open>moveSphere(previousPosition, newPosition, radius)\<close> with \<open>0 < radius\<close>: the height of
  every cell \<open>(u, v)\<close> becomes \<open>height + V previousPosition - V newPosition\<close>, where
  \<open>V center = (yMax - yMin) * 0.1\<close>, \<open>t\<close> is the horizontal distance from the cell's world
  position \<open>(2u - 1, 2v - 1)\<close> to \<open>(center.x, center.z)\<close> divided by \<open>radius\<close>,
  \<open>falloff = exp (- (1.5 t)\<^sup>6)\<close>, \<open>yMin = min 0 (center.y - falloff)\<close> and
  \<open>yMax = min (max 0 (center.y + falloff)) (yMin + 2 falloff)\<close>; the other three channels
  are unchanged.
\<close>

theorem moveSphere_displacement:
  assumes "0 < radius"
  shows "let V = (\<lambda>center.
               let t = sqrt ((u * 2 - 1 - v3x center)\<^sup>2 + (v * 2 - 1 - v3z center)\<^sup>2) / radius;
                   falloff = exp (- ((1.5 * t) ^ 6));
                   yMin = min 0 (v3y center - falloff);
                   yMax = min (max 0 (v3y center + falloff)) (yMin + 2 * falloff)
               in (yMax - yMin) * 0.1);
             old = targets_read w (Vec2 u v);
             new = targets_read (moveSphere previousPosition newPosition radius w) (Vec2 u v)
         in v4r new = v4r old + V previousPosition - V newPosition \<and>
            v4g new = v4g old \<and> v4b new = v4b old \<and> v4a new = v4a old"
  unfolding moveSphere_read volumeInSphere_eq [OF assms] Let_def by simp

text \<open>
  The sphere of radius 0.25 moves from above the cell \<open>(0.35, 0.35)\<close> to a point one world
  unit away, over the texture \<open>ripple\<close>.
\<close>

theorem moveSphere_displacement_witness:
  "(0::real) < 0.25 \<and>
   v4r (targets_read (moveSphere (Vec3 (- 0.3) (- 0.1) (- 0.3)) (Vec3 0.7 (- 0.1) (- 0.3)) 0.25
          ((GPGPUWater_new 128)\<lparr>targets_read := ripple\<rparr>)) (Vec2 0.35 0.35)) =
     0.35 * 0.35 + 0.2 - 0.2 * exp (- (6 ^ 6))"
proof -
  have pos: "(0::real) < 0.25"
    by simp
  have s: "sqrt ((0.35 * 2 - 1 - 0.7)\<^sup>2 + (0.35 * 2 - 1 - (- 0.3))\<^sup>2) = 1"
    by (rule real_sqrt_unique) (simp_all add: power2_eq_square)
  have r: "v4r (targets_read ((GPGPUWater_new 128)\<lparr>targets_read := ripple\<rparr>) (Vec2 0.35 0.35)) =
      0.35 * 0.35"
    by (simp add: ripple_def)
  have e: "0 \<le> exp (- ((6::real) ^ 6))"
    by simp
  show ?thesis
    using moveSphere_displacement [OF pos, of "0.35" "0.35"
        "(GPGPUWater_new 128)\<lparr>targets_read := ripple\<rparr>"
        "Vec3 (- 0.3) (- 0.1) (- 0.3)" "Vec3 0.7 (- 0.1) (- 0.3)"]
    unfolding Let_def r Vec3_sel s
    using column_volume [OF e, of "- 0.1"] column_volume [of 1 "- 0.1"]
    by simp
qed

text \<open>A sphere that has not moved since the last displacement pass triggers none.\<close>

lemma sphere_interaction_unmoved:
  "oldSpherePos e = sphere_position e \<Longrightarrow> sphere_interaction e = e"
  by (simp add: sphere_interaction_def distanceTo3_def)

section \<open>The interaction controller\<close>

text \<open>The calls the loop adds: one for each counter value from \<open>i\<close> up to \<open>segments\<close>.\<close>

lemma trail_loop_calls:
  "addDrop_calls (trail_loop i segments lastPoint currentUv strength e) =
     addDrop_calls e @
     map (\<lambda>k. (v2x lastPoint + (v2x currentUv - v2x lastPoint) * (real k / real segments),
                v2y lastPoint + (v2y currentUv - v2y lastPoint) * (real k / real segments),
                0.02, strength)) [i..<segments]"
proof (induction i segments lastPoint currentUv strength e rule: trail_loop.induct)
  case (1 i segments lastPoint currentUv strength e)
  show ?case
  proof (cases "i < segments")
    case True
    then have "[i..<segments] = i # [Suc i..<segments]"
      by (simp add: upt_conv_Cons)
    with True "1.IH" [OF True refl refl] show ?thesis
      by (subst trail_loop.simps) (simp add: Let_def waterSim_addDrop_def lerp2_def)
  next
    case False
    then show ?thesis
      by (subst trail_loop.simps) simp
  qed
qed

text \<open>The branch of \<^verbatim>\<open>onPointerMove\<close> taken while a trail is being drawn.\<close>

lemma onPointerMove_disturbing:
  assumes "\<not> isDraggingSphere e"
    and "intersectObject_sphere ev = []"
    and "lastWaterInteractionPoint e = Some lastUv"
    and "waterUv (poolSize e) (intersectPlane_waterPlane ev) = currentUv"
    and "0 \<le> v2x currentUv" and "v2x currentUv \<le> 1"
    and "0 \<le> v2y currentUv" and "v2y currentUv \<le> 1"
  shows "onPointerMove ev e =
    (trail_loop 0 (nat (max 1 \<lceil>distanceTo2 currentUv lastUv / 0.015\<rceil>)) lastUv currentUv
       (min (interactionStrength e)
            (0.01 + distanceTo2 currentUv lastUv * interactionStrength e * 8)) e)
    \<lparr>lastWaterInteractionPoint := Some currentUv\<rparr>"
  using assms by (simp add: onPointerMove_def Let_def not_less)

text \<open>A first move over the water of the fresh engine, at fluid coordinates \<open>(0.1, 0.1)\<close>.\<close>

lemma hover_start:
  "onPointerMove (pointer_at (- 0.8) 0.8) WaterEngine_new =
     WaterEngine_new\<lparr>lastWaterInteractionPoint := Some (Vec2 0.1 0.1)\<rparr>"
  by (simp add: onPointerMove_def pointer_at_def WaterEngine_new_def waterUv_def Let_def)

text \<open>
  C7, as the code has it. A pointer move while no sphere is dragged, the ray misses the
  sphere, \<^verbatim>\<open>lastWaterInteractionPoint\<close> is \<open>lastUv\<close> and the pointer is at fluid
  coordinates \<open>currentUv\<close> inside the unit square: with \<open>dst\<close> the distance between the two,
  the handler makes exactly \<open>max 1 \<lceil>dst / 0.015\<rceil>\<close> calls of \<^verbatim>\<open>addDrop\<close>, call \<open>i\<close> at
  \<open>lastUv + (currentUv - lastUv) * i / segments\<close>, each with radius 0.02 and strength
  \<open>min interactionStrength (0.01 + dst * interactionStrength * 8)\<close>, and then remembers
  \<open>currentUv\<close>.
\<close>

theorem onPointerMove_trail:
  assumes "\<not> isDraggingSphere e"
    and "intersectObject_sphere ev = []"
    and "lastWaterInteractionPoint e = Some lastUv"
    and "waterUv (poolSize e) (intersectPlane_waterPlane ev) = currentUv"
    and "0 \<le> v2x currentUv" and "v2x currentUv \<le> 1"
    and "0 \<le> v2y currentUv" and "v2y currentUv \<le> 1"
  shows "let dst = sqrt ((v2x currentUv - v2x lastUv)\<^sup>2 + (v2y currentUv - v2y lastUv)\<^sup>2);
             segments = max 1 (nat \<lceil>dst / 0.015\<rceil>);
             strength = min (interactionStrength e) (0.01 + dst * interactionStrength e * 8)
         in addDrop_calls (onPointerMove ev e) =
              addDrop_calls e @
              map (\<lambda>i. (v2x lastUv + (v2x currentUv - v2x lastUv) * (real i / real segments),
                         v2y lastUv + (v2y currentUv - v2y lastUv) * (real i / real segments),
                         0.02, strength)) [0..<segments] \<and>
            length (addDrop_calls (onPointerMove ev e)) = length (addDrop_calls e) + segments \<and>
            lastWaterInteractionPoint (onPointerMove ev e) = Some currentUv"
proof -
  define dst where "dst = sqrt ((v2x currentUv - v2x lastUv)\<^sup>2 + (v2y currentUv - v2y lastUv)\<^sup>2)"
  define segments where "segments = max 1 (nat \<lceil>dst / 0.015\<rceil>)"
  define strength where
    "strength = min (interactionStrength e) (0.01 + dst * interactionStrength e * 8)"
  have d: "distanceTo2 currentUv lastUv = dst"
    unfolding dst_def by (rule distanceTo2_eq)
  have n: "nat (max 1 \<lceil>dst / 0.015\<rceil>) = segments"
    unfolding segments_def by linarith
  have "onPointerMove ev e =
      (trail_loop 0 segments lastUv currentUv strength e)
      \<lparr>lastWaterInteractionPoint := Some currentUv\<rparr>"
    using onPointerMove_disturbing [OF assms] unfolding d n strength_def .
  then have calls: "addDrop_calls (onPointerMove ev e) =
              addDrop_calls e @
              map (\<lambda>i. (v2x lastUv + (v2x currentUv - v2x lastUv) * (real i / real segments),
                         v2y lastUv + (v2y currentUv - v2y lastUv) * (real i / real segments),
                         0.02, strength)) [0..<segments]"
    and lastp: "lastWaterInteractionPoint (onPointerMove ev e) = Some currentUv"
    by (simp_all add: trail_loop_calls)
  from calls have len:
    "length (addDrop_calls (onPointerMove ev e)) = length (addDrop_calls e) + segments"
    by simp
  from calls len lastp show ?thesis
    unfolding Let_def segments_def strength_def dst_def by blast
qed

text \<open>
  A drag from \<open>(0.25, 0.25)\<close> to \<open>(0.25, 0.5)\<close> on the fresh engine, the pointer meeting the
  water plane at \<open>(-0.5, 0, 0.5)\<close> and then at \<open>(-0.5, 0, 0)\<close>: the distance is 0.25 and
  \<open>0.25 / 0.015\<close> lies between 16 and 17, so seventeen calls, the first at \<open>(0.25, 0.25)\<close>
  and the last at sixteen seventeenths of the way, all with the configured strength 0.03.
\<close>

theorem onPointerMove_trail_witness:
  "\<not> isDraggingSphere (onPointerMove (pointer_at (- 0.5) 0.5) WaterEngine_new) \<and>
   intersectObject_sphere (pointer_at (- 0.5) 0) = [] \<and>
   lastWaterInteractionPoint (onPointerMove (pointer_at (- 0.5) 0.5) WaterEngine_new) =
     Some (Vec2 0.25 0.25) \<and>
   waterUv (poolSize (onPointerMove (pointer_at (- 0.5) 0.5) WaterEngine_new))
     (intersectPlane_waterPlane (pointer_at (- 0.5) 0)) = Vec2 0.25 0.5 \<and>
   length (addDrop_calls (onPointerMove (pointer_at (- 0.5) 0)
     (onPointerMove (pointer_at (- 0.5) 0.5) WaterEngine_new))) =
     length (addDrop_calls (onPointerMove (pointer_at (- 0.5) 0.5) WaterEngine_new)) + 17 \<and>
   addDrop_calls (onPointerMove (pointer_at (- 0.5) 0)
     (onPointerMove (pointer_at (- 0.5) 0.5) WaterEngine_new)) !
     length (addDrop_calls (onPointerMove (pointer_at (- 0.5) 0.5) WaterEngine_new)) =
     (0.25, 0.25, 0.02, 0.03) \<and>
   addDrop_calls (onPointerMove (pointer_at (- 0.5) 0)
     (onPointerMove (pointer_at (- 0.5) 0.5) WaterEngine_new)) !
     (length (addDrop_calls (onPointerMove (pointer_at (- 0.5) 0.5) WaterEngine_new)) + 16) =
     (0.25, 0.25 + (0.5 - 0.25) * (16 / 17), 0.02, 0.03)"
proof -
  let ?e = "WaterEngine_new\<lparr>lastWaterInteractionPoint := Some (Vec2 0.25 0.25)\<rparr>"
  have start: "onPointerMove (pointer_at (- 0.5) 0.5) WaterEngine_new = ?e"
    by (simp add: onPointerMove_def pointer_at_def WaterEngine_new_def waterUv_def Let_def)
  have s: "sqrt ((0.25 - 0.25)\<^sup>2 + (0.5 - 0.25)\<^sup>2) = (0.25::real)"
    by (rule real_sqrt_unique) (simp_all add: power2_eq_square)
  have c: "\<lceil>(0.25::real) / 0.015\<rceil> = 17"
    by (simp add: ceiling_eq_iff)
  have h: "\<not> isDraggingSphere ?e"
    "intersectObject_sphere (pointer_at (- 0.5) 0) = []"
    "lastWaterInteractionPoint ?e = Some (Vec2 0.25 0.25)"
    "waterUv (poolSize ?e) (intersectPlane_waterPlane (pointer_at (- 0.5) 0)) = Vec2 0.25 0.5"
    "addDrop_calls ?e = []"
    "interactionStrength ?e = 0.03"
    by (simp_all add: WaterEngine_new_def pointer_at_def waterUv_def)
  have b: "0 \<le> v2x (Vec2 0.25 0.5)" "v2x (Vec2 0.25 0.5) \<le> 1"
    "0 \<le> v2y (Vec2 0.25 0.5)" "v2y (Vec2 0.25 0.5) \<le> 1"
    by simp_all
  show ?thesis
    using onPointerMove_trail [OF h(1) h(2) h(3) h(4) b]
    unfolding start Let_def Vec2_sel s c h
    using h by simp
qed

text \<open>
  The count in C7 without the \<open>max\<close> fails when the pointer has not moved: a second move at
  the same fluid coordinates \<open>(0.1, 0.1)\<close> has distance 0, so \<open>\<lceil>0 / 0.015\<rceil> = 0\<close>, and the handler
  makes one call.
\<close>

theorem trail_count_counterexample:
  "\<not> isDraggingSphere (onPointerMove (pointer_at (- 0.8) 0.8) WaterEngine_new) \<and>
   intersectObject_sphere (pointer_at (- 0.8) 0.8) = [] \<and>
   lastWaterInteractionPoint (onPointerMove (pointer_at (- 0.8) 0.8) WaterEngine_new) =
     Some (Vec2 0.1 0.1) \<and>
   waterUv (poolSize (onPointerMove (pointer_at (- 0.8) 0.8) WaterEngine_new))
     (intersectPlane_waterPlane (pointer_at (- 0.8) 0.8)) = Vec2 0.1 0.1 \<and>
   \<lceil>distanceTo2 (Vec2 0.1 0.1) (Vec2 0.1 0.1) / 0.015\<rceil> = 0 \<and>
   addDrop_calls (onPointerMove (pointer_at (- 0.8) 0.8) WaterEngine_new) = [] \<and>
   addDrop_calls (onPointerMove (pointer_at (- 0.8) 0.8)
     (onPointerMove (pointer_at (- 0.8) 0.8) WaterEngine_new)) = [(0.1, 0.1, 0.02, 0.01)]"
proof -
  let ?e = "WaterEngine_new\<lparr>lastWaterInteractionPoint := Some (Vec2 0.1 0.1)\<rparr>"
  have d: "distanceTo2 (Vec2 0.1 0.1) (Vec2 0.1 0.1) = 0"
    by (simp add: distanceTo2_def)
  have "onPointerMove (pointer_at (- 0.8) 0.8) ?e =
      (trail_loop 0 (nat (max 1 \<lceil>distanceTo2 (Vec2 0.1 0.1) (Vec2 0.1 0.1) / 0.015\<rceil>))
         (Vec2 0.1 0.1) (Vec2 0.1 0.1)
         (min (interactionStrength ?e)
            (0.01 + distanceTo2 (Vec2 0.1 0.1) (Vec2 0.1 0.1) * interactionStrength ?e * 8)) ?e)
      \<lparr>lastWaterInteractionPoint := Some (Vec2 0.1 0.1)\<rparr>"
    by (rule onPointerMove_disturbing)
       (simp_all add: WaterEngine_new_def pointer_at_def waterUv_def)
  then have "addDrop_calls (onPointerMove (pointer_at (- 0.8) 0.8) ?e) = [(0.1, 0.1, 0.02, 0.01)]"
    unfolding d by (simp add: trail_loop_calls WaterEngine_new_def)
  then show ?thesis
    unfolding hover_start d
    by (simp add: WaterEngine_new_def pointer_at_def waterUv_def)
qed

text \<open>
  C6, as the code has it. The check of the fluid coordinates is the controller's: when the
  pointer's coordinates leave the unit square, \<^verbatim>\<open>onPointerDown\<close> and \<^verbatim>\<open>onPointerMove\<close> call
  no \<^verbatim>\<open>addDrop\<close> and leave the grid alone, and \<^verbatim>\<open>onPointerMove\<close>, unless the sphere is being
  dragged, forgets \<^verbatim>\<open>lastWaterInteractionPoint\<close>. \<^verbatim>\<open>addDrop\<close> itself has no check:
  \<^verbatim>\<open>addDrop(1.5, 0.5, r, s)\<close> leaves the cells with \<open>u \<le> 1\<close> unchanged when \<open>0 < r \<le> 1/2\<close>, all of
  them being at least \<open>r\<close> away from the centre.
\<close>

theorem out_of_range_injection:
  "((v2x (waterUv (poolSize e) (intersectPlane_waterPlane ev)) < 0 \<or>
     1 < v2x (waterUv (poolSize e) (intersectPlane_waterPlane ev)) \<or>
     v2y (waterUv (poolSize e) (intersectPlane_waterPlane ev)) < 0 \<or>
     1 < v2y (waterUv (poolSize e) (intersectPlane_waterPlane ev))) \<longrightarrow>
      waterSim (onPointerDown ev e) = waterSim e \<and>
      addDrop_calls (onPointerDown ev e) = addDrop_calls e \<and>
      waterSim (onPointerMove ev e) = waterSim e \<and>
      addDrop_calls (onPointerMove ev e) = addDrop_calls e \<and>
      (\<not> isDraggingSphere e \<longrightarrow> lastWaterInteractionPoint (onPointerMove ev e) = None)) \<and>
   (0 < r \<and> r \<le> 1 / 2 \<and> u \<le> 1 \<longrightarrow>
      targets_read (addDrop 1.5 0.5 r s w) (Vec2 u v) = targets_read w (Vec2 u v))"
proof -
  have "targets_read (addDrop 1.5 0.5 r s w) (Vec2 u v) = targets_read w (Vec2 u v)"
    if "0 < r" and "r \<le> 1 / 2" and "u \<le> 1"
  proof -
    have "r \<le> \<bar>u - 1.5\<bar>"
      using that by simp
    also have "\<dots> = sqrt ((u - 1.5)\<^sup>2)"
      by simp
    also have "\<dots> \<le> sqrt ((u - 1.5)\<^sup>2 + (v - 0.5)\<^sup>2)"
      by (rule real_sqrt_le_mono) simp
    finally show ?thesis
      using \<open>0 < r\<close> by (rule addDrop_outside [rotated])
  qed
  then show ?thesis
    by (auto simp add: onPointerDown_def onPointerMove_def Let_def)
qed

text \<open>
  A pointer at fluid coordinates \<open>(1.5, 0.5)\<close> on the fresh engine, and the drop
  \<^verbatim>\<open>addDrop(1.5, 0.5, 0.5, 1)\<close> seen from the texel centre \<open>(255/256, 127/256)\<close>.
\<close>

theorem out_of_range_injection_witness:
  "1 < v2x (waterUv (poolSize WaterEngine_new) (intersectPlane_waterPlane (pointer_at 2 0))) \<and>
   waterUv (poolSize WaterEngine_new) (intersectPlane_waterPlane (pointer_at 2 0)) =
     Vec2 (3 / 2) (1 / 2) \<and>
   \<not> isDraggingSphere WaterEngine_new \<and>
   waterSim (onPointerDown (pointer_at 2 0) WaterEngine_new) = waterSim WaterEngine_new \<and>
   addDrop_calls (onPointerDown (pointer_at 2 0) WaterEngine_new) = [] \<and>
   waterSim (onPointerMove (pointer_at 2 0) WaterEngine_new) = waterSim WaterEngine_new \<and>
   addDrop_calls (onPointerMove (pointer_at 2 0) WaterEngine_new) = [] \<and>
   lastWaterInteractionPoint (onPointerMove (pointer_at 2 0) WaterEngine_new) = None \<and>
   (0::real) < 1 / 2 \<and> (1 / 2 :: real) \<le> 1 / 2 \<and> (255 / 256 :: real) \<le> 1 \<and>
   targets_read (addDrop 1.5 0.5 (1 / 2) 1 (GPGPUWater_new 128)) (Vec2 (255 / 256) (127 / 256)) =
     \<lparr>v4r = 0, v4g = 0, v4b = 0, v4a = 0\<rparr>"
proof -
  have uv: "waterUv (poolSize WaterEngine_new) (intersectPlane_waterPlane (pointer_at 2 0)) =
      Vec2 (3 / 2) (1 / 2)"
    by (simp add: waterUv_def WaterEngine_new_def pointer_at_def)
  have e: "\<not> isDraggingSphere WaterEngine_new" "addDrop_calls WaterEngine_new = []"
    by (simp_all add: WaterEngine_new_def)
  have w: "targets_read (GPGPUWater_new 128) (Vec2 (255 / 256) (127 / 256)) =
      \<lparr>v4r = 0, v4g = 0, v4b = 0, v4a = 0\<rparr>"
    by (simp add: GPGPUWater_new_def)
  show ?thesis
    using out_of_range_injection [of WaterEngine_new "pointer_at 2 0" "1 / 2" "255 / 256" 1
        "GPGPUWater_new 128" "127 / 256"]
    unfolding uv by (simp add: e w)
qed

text \<open>
  C6 as stated fails for \<^verbatim>\<open>addDrop\<close>: the centre \<open>(1.5, 0.5)\<close> is outside the unit square,
  and \<^verbatim>\<open>addDrop(1.5, 0.5, 1, 1)\<close> on the fresh grid raises the texel centre
  \<open>(255/256, 127/256)\<close>, which is closer than the radius.
\<close>

theorem addDrop_out_of_range_counterexample:
  "\<not> (1.5::real) \<le> 1 \<and>
   targets_read (addDrop 1.5 0.5 1 1 (GPGPUWater_new 128)) (Vec2 (255 / 256) (127 / 256)) \<noteq>
   targets_read (GPGPUWater_new 128) (Vec2 (255 / 256) (127 / 256))"
proof -
  define d :: real where "d = 1 - sqrt ((255 / 256 - 1.5)\<^sup>2 + (127 / 256 - 0.5)\<^sup>2) / 1"
  have "sqrt ((255 / 256 - 1.5)\<^sup>2 + (127 / 256 - 0.5)\<^sup>2) < 1"
    by (rule real_less_lsqrt) (simp_all add: power2_eq_square)
  then have pos: "0 < d"
    by (simp add: d_def)
  have "1 / 2 \<le> sqrt ((255 / 256 - 1.5)\<^sup>2 + (127 / 256 - 0.5)\<^sup>2)"
    by (rule real_le_rsqrt) (simp add: power2_eq_square)
  then have half: "d \<le> 1 / 2"
    by (simp add: d_def)
  have m: "max 0 d = d"
    using pos by simp
  have "v4r (targets_read (addDrop 1.5 0.5 1 1 (GPGPUWater_new 128)) (Vec2 (255 / 256) (127 / 256))) =
      0.5 - cos (d * PI) * 0.5"
    unfolding addDrop_read d_def [symmetric] m by (simp add: GPGPUWater_new_def)
  moreover have "v4r (targets_read (GPGPUWater_new 128) (Vec2 (255 / 256) (127 / 256))) = 0"
    by (simp add: GPGPUWater_new_def)
  ultimately show ?thesis
    using drop_positive [OF pos half] by auto
qed

text \<open>
  C9, as the code has it. After \<^verbatim>\<open>onPointerUp\<close> no sphere is dragged and
  \<^verbatim>\<open>lastWaterInteractionPoint\<close> is null. After \<^verbatim>\<open>onPointerLeave\<close>
  \<^verbatim>\<open>lastWaterInteractionPoint\<close> is null and \<^verbatim>\<open>isDraggingSphere\<close> is what it was: a drag goes
  on until the pointer is released. Neither handler assigns the sphere's velocity.
\<close>

theorem pointer_up_leave:
  "isDraggingSphere (onPointerUp e) = False \<and>
   lastWaterInteractionPoint (onPointerUp e) = None \<and>
   lastWaterInteractionPoint (onPointerLeave e) = None \<and>
   isDraggingSphere (onPointerLeave e) = isDraggingSphere e \<and>
   sphereVelocity (onPointerUp e) = sphereVelocity e \<and>
   sphereVelocity (onPointerLeave e) = sphereVelocity e"
  by (simp add: onPointerUp_def onPointerLeave_def)

text \<open>
  C9 as stated fails for pointer-leave: a pointer-down on the sphere starts a drag, and the
  drag is still on after the pointer leaves.
\<close>

theorem pointer_leave_counterexample:
  "isDraggingSphere (onPointerLeave (onPointerDown pointer_on_sphere WaterEngine_new)) = True"
  by (simp add: onPointerLeave_def onPointerDown_def pointer_on_sphere_def)

section \<open>The sphere physics integrator\<close>

text \<open>
  C8. For a sphere of radius \<open>r > 0\<close> whose centre is at height \<open>y\<close>, the submerged ratio
  is \<open>(r - y) / (2 r)\<close> clamped to \<open>[0, 1]\<close>: 0 when \<open>y > r\<close>, 1 when \<open>y < - r\<close>, and one half
  at \<open>y = 0\<close>.
\<close>

theorem submergedRatio_clamp:
  assumes "0 < r"
  shows "submergedRatio r y = max 0 (min 1 ((r - y) / (2 * r))) \<and>
         (r < y \<longrightarrow> submergedRatio r y = 0) \<and>
         (y < - r \<longrightarrow> submergedRatio r y = 1) \<and>
         submergedRatio r 0 = 1 / 2"
proof -
  have above: "(r - y) / (2 * r) < 0" if "r < y"
    using that assms by (simp add: divide_less_0_iff)
  have below: "1 < (r - y) / (2 * r)" if "y < - r"
    using that assms by (simp add: less_divide_eq)
  have "submergedRatio r y = max 0 (min 1 ((r - y) / (2 * r)))"
    using above below by (auto simp add: submergedRatio_def clamp_def)
  moreover have "submergedRatio r 0 = 1 / 2"
    using assms by (simp add: submergedRatio_def clamp_def)
  moreover have "submergedRatio r y = 0" if "r < y"
    using that by (simp add: submergedRatio_def)
  moreover have "submergedRatio r y = 1" if "y < - r"
    using that assms by (simp add: submergedRatio_def)
  ultimately show ?thesis
    by blast
qed

text \<open>The engine's sphere, radius 0.25, above the water, below it, at the surface and between.\<close>

theorem submergedRatio_clamp_witness:
  "(0::real) < 1 / 4 \<and> (1 / 4 :: real) < 1 / 2 \<and> (- 1 / 2 :: real) < - (1 / 4) \<and>
   submergedRatio (1 / 4) (1 / 2) = 0 \<and> submergedRatio (1 / 4) (- 1 / 2) = 1 \<and>
   submergedRatio (1 / 4) 0 = 1 / 2 \<and> submergedRatio (1 / 4) (1 / 8) = 1 / 4"
  using submergedRatio_clamp [of "1 / 4" "1 / 2"] submergedRatio_clamp [of "1 / 4" "- 1 / 2"]
    submergedRatio_clamp [of "1 / 4" "1 / 8"]
  by simp

end
